theory Spec2Isabelle
  imports Complex_Main
begin

section \<open>Values and text\<close>

text \<open>
  The values generated code can bind to \<open>result\<close>. Python's \<open>Any\<close> is narrowed to the
  shapes the scorer and the response encoder tell apart: \<open>None\<close>, scalars, strings,
  tuples, lists, dicts, and an opaque object (a DataFrame, a figure) that is none of these.
\<close>

datatype pyval =
    PyNone
  | PyInt int
  | PyFloat rat
  | PyStr string
  | PyTuple "pyval list"
  | PyList "pyval list"
  | PyDict "(string \<times> pyval) list"
  | PyObject string

text \<open>\<open>isinstance(result, (dict, list))\<close>.\<close>

fun is_dict_or_list :: "pyval \<Rightarrow> bool" where
  "is_dict_or_list (PyList xs) = True"
| "is_dict_or_list (PyDict kvs) = True"
| "is_dict_or_list v = False"

text \<open>\<open>len(result)\<close>, read only behind the \<open>isinstance\<close> test above.\<close>

fun py_len :: "pyval \<Rightarrow> nat" where
  "py_len (PyList xs) = length xs"
| "py_len (PyDict kvs) = length kvs"
| "py_len (PyTuple xs) = length xs"
| "py_len (PyStr s) = length s"
| "py_len v = 0"

text \<open>
  \<open>str.lower()\<close> on the ASCII range; the bytes of non-ASCII characters are kept, and no
  keyword below contains one.
\<close>

definition lower_char :: "char \<Rightarrow> char" where
  "lower_char c =
     (case map_of (zip ''ABCDEFGHIJKLMNOPQRSTUVWXYZ'' ''abcdefghijklmnopqrstuvwxyz'') c of
        Some d \<Rightarrow> d
      | None \<Rightarrow> c)"

definition lower :: "string \<Rightarrow> string" where
  "lower s = map lower_char s"

text \<open>\<open>s.startswith(w)\<close> and the substring test \<open>w in s\<close>.\<close>

fun starts_with :: "string \<Rightarrow> string \<Rightarrow> bool" where
  "starts_with [] s = True"
| "starts_with (a # w) [] = False"
| "starts_with (a # w) (c # s) = (a = c \<and> starts_with w s)"

fun str_in :: "string \<Rightarrow> string \<Rightarrow> bool" where
  "str_in w [] = (w = [])"
| "str_in w (c # s) = (starts_with w (c # s) \<or> str_in w s)"

text \<open>\<open>any(word in text for word in words)\<close>.\<close>

fun any_word_in :: "string list \<Rightarrow> string \<Rightarrow> bool" where
  "any_word_in [] text = False"
| "any_word_in (w # ws) text = (str_in w text \<or> any_word_in ws text)"

section \<open>The success scorer\<close>

definition positive_words :: "string list" where
  "positive_words = [''good'', ''great'', ''excellent'', ''perfect'']"

definition negative_words :: "string list" where
  "negative_words = [''bad'', ''wrong'', ''error'', ''failed'']"

text \<open>
  \<open>calculate_success_score\<close> of \<open>rag_system.py\<close>, statement by statement, with the
  decimals of the source as exact rationals; the same function in the interpreter's
  binary64 arithmetic follows in the next section. An absent or empty feedback string is
  falsy and skips the adjustment.
\<close>

definition calculate_success_score :: "pyval \<Rightarrow> string option \<Rightarrow> rat" where
  "calculate_success_score result user_feedback =
     (let score = 0.5;
          score = (if result \<noteq> PyNone then score + 0.3 else score);
          score = (if is_dict_or_list result \<and> py_len result > 0 then score + 0.2 else score);
          score =
            (case user_feedback of
               None \<Rightarrow> score
             | Some fb \<Rightarrow>
                 if fb = [] then score
                 else
                   let feedback_lower = lower fb in
                   if any_word_in positive_words feedback_lower then score + 0.3
                   else if any_word_in negative_words feedback_lower then score - 0.3
                   else score)
      in max 0 (min 1 score))"

text \<open>
  The reference heuristic in the words of the specification, for comparison with the
  function above: a base, a presence bonus, a structure bonus, one feedback adjustment
  with the positive keywords tried first, and a clamp.
\<close>

definition result_present :: "pyval \<Rightarrow> bool" where
  "result_present r = (r \<noteq> PyNone)"

fun nonempty_structure :: "pyval \<Rightarrow> bool" where
  "nonempty_structure (PyDict kvs) = (kvs \<noteq> [])"
| "nonempty_structure (PyList xs) = (xs \<noteq> [])"
| "nonempty_structure v = False"

definition mentions :: "string list \<Rightarrow> string \<Rightarrow> bool" where
  "mentions words fb = any_word_in words (lower fb)"

definition feedback_adjustment :: "string option \<Rightarrow> rat" where
  "feedback_adjustment fb =
     (case fb of
        None \<Rightarrow> 0
      | Some t \<Rightarrow>
          if mentions positive_words t then 0.3
          else if mentions negative_words t then - 0.3
          else 0)"

definition clamp01 :: "rat \<Rightarrow> rat" where
  "clamp01 x = (if x < 0 then 0 else if 1 < x then 1 else x)"

definition reference_score :: "pyval \<Rightarrow> string option \<Rightarrow> rat" where
  "reference_score r fb =
     clamp01 (0.5 + (if result_present r then 0.3 else 0)
                  + (if nonempty_structure r then 0.2 else 0)
                  + feedback_adjustment fb)"

section \<open>The scorer in binary64 arithmetic\<close>

text \<open>
  Python's \<open>float\<close> is IEEE 754 binary64. A double is held as the rational it denotes;
  \<open>b64\<close> rounds a rational to the nearest double, ties to the even significand, in the
  normal range (the scores lie between 0.2 and 1.3, far from overflow and from the
  subnormals). \<open>binade x\<close> is the exponent \<open>e\<close> with \<open>2 ^ e \<le> x < 2 ^ (e + 1)\<close>, found
  by halving or doubling at most 1100 times.
\<close>

fun binade_aux :: "nat \<Rightarrow> rat \<Rightarrow> int" where
  "binade_aux 0 x = 0"
| "binade_aux (Suc n) x =
     (if 2 \<le> x then binade_aux n (x / 2) + 1
      else if x < 1 then binade_aux n (2 * x) - 1
      else 0)"

definition binade :: "rat \<Rightarrow> int" where
  "binade x = binade_aux 1100 x"

definition pow2 :: "int \<Rightarrow> rat" where
  "pow2 e = (if 0 \<le> e then 2 ^ nat e else 1 / 2 ^ nat (- e))"

definition round_half_even :: "rat \<Rightarrow> int" where
  "round_half_even q =
     (let f = \<lfloor>q\<rfloor>; d = q - of_int f
      in if d < 1 / 2 then f else if 1 / 2 < d then f + 1 else if even f then f else f + 1)"

definition b64 :: "rat \<Rightarrow> rat" where
  "b64 x =
     (if x = 0 then 0
      else let u = pow2 (binade \<bar>x\<bar> - 52) in of_int (round_half_even (x / u)) * u)"

text \<open>
  \<open>calculate_success_score\<close> once more, as the interpreter computes it: each literal is
  the double nearest to the decimal, each sum and difference is rounded.
\<close>

definition calculate_success_score_b64 :: "pyval \<Rightarrow> string option \<Rightarrow> rat" where
  "calculate_success_score_b64 result user_feedback =
     (let score = b64 0.5;
          score = (if result \<noteq> PyNone then b64 (score + b64 0.3) else score);
          score = (if is_dict_or_list result \<and> py_len result > 0
                   then b64 (score + b64 0.2) else score);
          score =
            (case user_feedback of
               None \<Rightarrow> score
             | Some fb \<Rightarrow>
                 if fb = [] then score
                 else
                   let feedback_lower = lower fb in
                   if any_word_in positive_words feedback_lower then b64 (score + b64 0.3)
                   else if any_word_in negative_words feedback_lower then b64 (score - b64 0.3)
                   else score)
      in max (b64 0.0) (min (b64 1.0) score))"

text \<open>The twelve paths through the scorer: whether the result is present, whether it is
  a non-empty dict or list, and which way the feedback moves the score; \<open>fl\<close> is the
  rounding applied to every literal and operation.\<close>

datatype sentiment = Positive | Negative | Neutral

definition sentiment_of :: "string option \<Rightarrow> sentiment" where
  "sentiment_of user_feedback =
     (case user_feedback of
        None \<Rightarrow> Neutral
      | Some fb \<Rightarrow>
          if fb = [] then Neutral
          else if any_word_in positive_words (lower fb) then Positive
          else if any_word_in negative_words (lower fb) then Negative
          else Neutral)"

definition path_score :: "(rat \<Rightarrow> rat) \<Rightarrow> bool \<Rightarrow> bool \<Rightarrow> sentiment \<Rightarrow> rat" where
  "path_score fl present structured s =
     (let score = fl 0.5;
          score = (if present then fl (score + fl 0.3) else score);
          score = (if structured then fl (score + fl 0.2) else score);
          score =
            (case s of
               Positive \<Rightarrow> fl (score + fl 0.3)
             | Negative \<Rightarrow> fl (score - fl 0.3)
             | Neutral \<Rightarrow> score)
      in max (fl 0.0) (min (fl 1.0) score))"

section \<open>Interactions, context entries and the vector store\<close>

text \<open>
  The \<open>Interaction\<close> dataclass. \<open>extra_attrs\<close> holds the attributes of the instance that
  are not dataclass fields (a Python object accepts any); the constructor leaves it empty.
\<close>

record interaction =
  timestamp :: string
  user_query :: string
  generated_code :: string
  execution_result :: pyval
  user_feedback :: "string option"
  success_score :: "rat option"
  context_used :: "string list"
  extra_attrs :: "(string \<times> string) list"

text \<open>\<open>hasattr(interaction, name)\<close> for a name that is not a dataclass field.\<close>

definition hasattr :: "interaction \<Rightarrow> string \<Rightarrow> bool" where
  "hasattr i name = (map_of (extra_attrs i) name \<noteq> None)"

type_synonym embedding = "int list"

datatype meta_val = MNone | MStr string | MNum rat

type_synonym metadata = "(string \<times> meta_val) list"

text \<open>
  One record of a ChromaDB collection: what a single \<open>collection.add\<close> stores. The document
  of the context collection is text; the document of the interaction collection is the
  JSON text of an interaction's \<open>__dict__\<close>, held here as the record it encodes.
\<close>

record 'd entry =
  e_id :: string
  e_embedding :: embedding
  e_document :: 'd
  e_metadata :: metadata

datatype exn =
    EmbedderError
  | StoreError
  | LLMError
  | IndexError
  | TypeError
  | HTTPException nat string

text \<open>
  The embedding model and the vector store are libraries outside the repository. Their
  calls are parameters of the model, each returning an exception or a value: \<open>encode\<close>,
  \<open>collection.add\<close> (the collection before, the record, the collection after) and
  \<open>collection.query\<close> (the \<open>documents\<close> field of the answer, one list per query
  embedding). \<open>count()\<close> and \<open>get()['ids']\<close> read the stored records.
\<close>

record env =
  encode :: "string \<Rightarrow> exn + embedding"
  ctx_add :: "string entry list \<Rightarrow> string entry \<Rightarrow> exn + string entry list"
  ctx_query :: "string entry list \<Rightarrow> embedding \<Rightarrow> int \<Rightarrow> exn + string list list"
  int_add ::
    "interaction entry list \<Rightarrow> interaction entry \<Rightarrow> exn + interaction entry list"
  int_query ::
    "interaction entry list \<Rightarrow> embedding \<Rightarrow> int \<Rightarrow> exn + interaction list list"

text \<open>The state of a \<open>RAGAdaptiveSystem\<close> instance.\<close>

record rag_state =
  context_collection :: "string entry list"
  interaction_collection :: "interaction entry list"
  interaction_history :: "interaction list"

definition count :: "'d entry list \<Rightarrow> nat" where
  "count coll = length coll"

definition get_ids :: "'d entry list \<Rightarrow> string list" where
  "get_ids coll = map e_id coll"

text \<open>\<open>str(n)\<close> for a non-negative integer.\<close>

definition digit_char :: "nat \<Rightarrow> char" where
  "digit_char d = ''0123456789'' ! d"

function str_nat :: "nat \<Rightarrow> string" where
  "str_nat n = (if n < 10 then [digit_char n] else str_nat (n div 10) @ [digit_char (n mod 10)])"
  by pat_completeness auto
termination
  by (relation "measure id") auto

declare str_nat.simps [simp del]

section \<open>Inserting context entries\<close>

text \<open>A context as the callers of \<open>add_contexts\<close> build it: a dict with \<open>content\<close> and,
  optionally, \<open>metadata\<close>.\<close>

record context_dict =
  content :: string
  metadata :: "metadata option"

text \<open>
  The loop of \<open>add_contexts\<close>: \<open>i\<close> is the index \<open>enumerate\<close> supplies, and the id of each
  record is \<open>context_\<close> followed by the number of stored ids, read again at every
  iteration, plus \<open>i\<close>. An exception of the embedder or of the store leaves the loop; the
  surrounding \<open>try\<close> logs it, so the records added before it stay.
\<close>

definition context_id :: "string entry list \<Rightarrow> nat \<Rightarrow> string" where
  "context_id coll i = ''context_'' @ str_nat (length (get_ids coll) + i)"

fun add_contexts_loop :: "env \<Rightarrow> string entry list \<Rightarrow> nat \<Rightarrow> context_dict list \<Rightarrow> string entry list" where
  "add_contexts_loop E coll i [] = coll"
| "add_contexts_loop E coll i (c # cs) =
     (case encode E (content c) of
        Inl e \<Rightarrow> coll
      | Inr embedding \<Rightarrow>
          (case ctx_add E coll
                  \<lparr>e_id = context_id coll i,
                   e_embedding = embedding,
                   e_document = content c,
                   e_metadata = (case metadata c of None \<Rightarrow> [] | Some m \<Rightarrow> m)\<rparr> of
             Inl e \<Rightarrow> coll
           | Inr coll' \<Rightarrow> add_contexts_loop E coll' (i + 1) cs))"

definition add_contexts :: "env \<Rightarrow> rag_state \<Rightarrow> context_dict list \<Rightarrow> rag_state" where
  "add_contexts E st contexts =
     st\<lparr>context_collection := add_contexts_loop E (context_collection st) 0 contexts\<rparr>"

definition default_contexts :: "context_dict list" where
  "default_contexts =
     [\<lparr>content = ''Data scraping from web tables using scrape_table_from_url() function'',
       metadata = Some [(''type'', MStr ''data_source''), (''category'', MStr ''web_scraping'')]\<rparr>,
      \<lparr>content = ''SQL queries using DuckDB with run_duckdb_query() function'',
       metadata = Some [(''type'', MStr ''data_analysis''), (''category'', MStr ''sql'')]\<rparr>,
      \<lparr>content = ''Creating visualizations with matplotlib and encoding as base64'',
       metadata = Some [(''type'', MStr ''visualization''), (''category'', MStr ''plotting'')]\<rparr>,
      \<lparr>content = ''Pandas data manipulation and analysis techniques'',
       metadata = Some [(''type'', MStr ''data_analysis''), (''category'', MStr ''pandas'')]\<rparr>,
      \<lparr>content = ''Statistical analysis using numpy and scikit-learn'',
       metadata = Some [(''type'', MStr ''data_analysis''), (''category'', MStr ''statistics'')]\<rparr>]"

definition initialize_knowledge_base :: "env \<Rightarrow> rag_state \<Rightarrow> rag_state" where
  "initialize_knowledge_base E st =
     (if count (context_collection st) = 0 then add_contexts E st default_contexts else st)"

section \<open>Learning from interactions\<close>

text \<open>Python's truth test of an optional float followed by the threshold:
  \<open>x.success_score and x.success_score > 0.7\<close>.\<close>

definition is_successful :: "interaction \<Rightarrow> bool" where
  "is_successful i =
     (case success_score i of None \<Rightarrow> False | Some s \<Rightarrow> s \<noteq> 0 \<and> s > 0.7)"

definition learned_context :: "interaction \<Rightarrow> context_dict" where
  "learned_context i =
     \<lparr>content = ''Successful code pattern for: '' @ user_query i @ [CHR 0x0A] @ ''Code: ''
                 @ generated_code i,
      metadata = Some [(''type'', MStr ''learned_pattern''),
                       (''success_score'',
                          (case success_score i of None \<Rightarrow> MNone | Some s \<Rightarrow> MNum s)),
                       (''original_query'', MStr (user_query i))]\<rparr>"

definition learn_from_successful_interaction :: "env \<Rightarrow> rag_state \<Rightarrow> interaction \<Rightarrow> rag_state" where
  "learn_from_successful_interaction E st i =
     (if generated_code i \<noteq> [] then add_contexts E st [learned_context i] else st)"

text \<open>
  \<open>add_interaction\<close>: the record goes to the interaction collection under the id
  \<open>interaction_\<close> and the number of stored ids, then to the history, and a successful one
  is learnt from. An exception of the embedder or of the store is logged by the
  surrounding \<open>try\<close> and ends the call before the history is touched.
\<close>

definition interaction_entry :: "interaction entry list \<Rightarrow> embedding \<Rightarrow> interaction \<Rightarrow> interaction entry" where
  "interaction_entry coll emb i =
     \<lparr>e_id = ''interaction_'' @ str_nat (length (get_ids coll)),
      e_embedding = emb,
      e_document = i,
      e_metadata = [(''timestamp'', MStr (timestamp i)),
                    (''success_score'',
                       (case success_score i of None \<Rightarrow> MNone | Some s \<Rightarrow> MNum s)),
                    (''feedback'',
                       (case user_feedback i of None \<Rightarrow> MNone | Some f \<Rightarrow> MStr f))]\<rparr>"

definition add_interaction :: "env \<Rightarrow> rag_state \<Rightarrow> interaction \<Rightarrow> rag_state" where
  "add_interaction E st i =
     (case encode E (user_query i) of
        Inl e \<Rightarrow> st
      | Inr emb \<Rightarrow>
          (case int_add E (interaction_collection st)
                  (interaction_entry (interaction_collection st) emb i) of
             Inl e \<Rightarrow> st
           | Inr coll' \<Rightarrow>
               (let st1 = st\<lparr>interaction_collection := coll',
                              interaction_history := interaction_history st @ [i]\<rparr>
                in if is_successful i then learn_from_successful_interaction E st1 i else st1)))"

section \<open>Retrieval\<close>

text \<open>
  The body of \<open>retrieve_relevant_context\<close> inside its \<open>try\<close>, then the function with its
  \<open>except Exception\<close>, which logs and returns the empty list. A falsy \<open>documents\<close> field
  gives the empty list as well.
\<close>

definition retrieve_body :: "env \<Rightarrow> rag_state \<Rightarrow> string \<Rightarrow> int \<Rightarrow> exn + string list" where
  "retrieve_body E st query top_k =
     (case encode E query of
        Inl e \<Rightarrow> Inl e
      | Inr query_embedding \<Rightarrow>
          (case ctx_query E (context_collection st) query_embedding top_k of
             Inl e \<Rightarrow> Inl e
           | Inr documents \<Rightarrow> Inr (case documents of [] \<Rightarrow> [] | d # ds \<Rightarrow> d)))"

definition retrieve_relevant_context :: "env \<Rightarrow> rag_state \<Rightarrow> string \<Rightarrow> int \<Rightarrow> string list" where
  "retrieve_relevant_context E st query top_k =
     (case retrieve_body E st query top_k of Inl e \<Rightarrow> [] | Inr docs \<Rightarrow> docs)"

text \<open>
  \<open>Interaction(**json.loads(doc))\<close>: the constructor takes the dataclass fields and raises
  on any other key. The fields the prompt reads afterwards (\<open>user_query\<close>,
  \<open>generated_code\<close>, \<open>success_score\<close>) come back from JSON as they went in.
\<close>

definition load_interaction :: "interaction \<Rightarrow> exn + interaction" where
  "load_interaction doc = (if extra_attrs doc = [] then Inr doc else Inl TypeError)"

fun load_all :: "interaction list \<Rightarrow> interaction list" where
  "load_all [] = []"
| "load_all (doc # docs) =
     (case load_interaction doc of
        Inl e \<Rightarrow> load_all docs
      | Inr i \<Rightarrow> i # load_all docs)"

definition similar_body :: "env \<Rightarrow> rag_state \<Rightarrow> string \<Rightarrow> int \<Rightarrow> exn + interaction list" where
  "similar_body E st query top_k =
     (case encode E query of
        Inl e \<Rightarrow> Inl e
      | Inr query_embedding \<Rightarrow>
          (case int_query E (interaction_collection st) query_embedding top_k of
             Inl e \<Rightarrow> Inl e
           | Inr documents \<Rightarrow>
               (case documents of [] \<Rightarrow> Inl IndexError | d # ds \<Rightarrow> Inr (load_all d))))"

definition get_similar_interactions :: "env \<Rightarrow> rag_state \<Rightarrow> string \<Rightarrow> int \<Rightarrow> interaction list" where
  "get_similar_interactions E st query top_k =
     (case similar_body E st query top_k of Inl e \<Rightarrow> [] | Inr found \<Rightarrow> found)"

section \<open>The prompt builder\<close>

definition newline :: string where
  "newline = [CHR 0x0A]"

text \<open>\<open>"\n".join(parts)\<close>.\<close>

fun join_lines :: "string list \<Rightarrow> string" where
  "join_lines [] = []"
| "join_lines [p] = p"
| "join_lines (p # q # ps) = p @ newline @ join_lines (q # ps)"

text \<open>The two loops of \<open>get_adaptive_prompt\<close>, each appending to \<open>prompt_parts\<close>.
  \<open>[:200]\<close> is \<open>take 200\<close>: characters are counted as the bytes of ASCII code.\<close>

fun append_context_lines :: "string list \<Rightarrow> string list \<Rightarrow> string list" where
  "append_context_lines parts [] = parts"
| "append_context_lines parts (c # cs) = append_context_lines (parts @ [''- '' @ c]) cs"

fun append_pattern_lines :: "string list \<Rightarrow> interaction list \<Rightarrow> string list" where
  "append_pattern_lines parts [] = parts"
| "append_pattern_lines parts (i # rest) =
     append_pattern_lines
       (if is_successful i
        then parts @ [''- Query: '' @ user_query i,
                      ''- Successful code: '' @ take 200 (generated_code i) @ ''...'']
        else parts)
       rest"

definition patterns_header :: string where
  "patterns_header = newline @ ''Similar successful patterns:''"

definition prompt_preamble :: "string list" where
  "prompt_preamble =
     [''You are a data analyst agent with access to the following helpers:'',
      ''- scrape_table_from_url(url)'',
      ''- run_duckdb_query(query, files=None)'',
      ''- plot_and_encode_base64(fig)'',
      [],
      ''Relevant context for this type of task:'']"

definition prompt_closing :: "string \<Rightarrow> string list" where
  "prompt_closing query =
     [[],
      ''Task: '' @ query,
      [],
      ''Generate Python code that uses the helpers above. The final answer must be stored in a variable named '' @ [CHR 0x27] @ ''result'' @ [CHR 0x27] @ ''.'',
      ''Return only the code, no explanation.'']"

definition prompt_parts :: "string list \<Rightarrow> interaction list \<Rightarrow> string \<Rightarrow> string list" where
  "prompt_parts relevant_context similar_interactions query =
     (let parts = prompt_preamble;
          parts = append_context_lines parts relevant_context;
          parts =
            (if similar_interactions \<noteq> []
             then append_pattern_lines (parts @ [patterns_header]) similar_interactions
             else parts)
      in parts @ prompt_closing query)"

definition get_adaptive_prompt :: "env \<Rightarrow> rag_state \<Rightarrow> string \<Rightarrow> string" where
  "get_adaptive_prompt E st query =
     (let relevant_context = retrieve_relevant_context E st query 3;
          similar_interactions = get_similar_interactions E st query 2
      in join_lines (prompt_parts relevant_context similar_interactions query))"

section \<open>The executor\<close>

text \<open>
  What a name of the namespace handed to \<open>exec\<close> is bound to: the interpreter's own
  \<open>__builtins__\<close> module (\<open>open\<close>, \<open>__import__\<close>, \<open>eval\<close>, ...), a helper of \<open>utils.py\<close>,
  or an imported library module.
\<close>

datatype binding = Builtins | Helper string | Library string

definition allowed_globals :: "(string \<times> binding) list" where
  "allowed_globals =
     [(''__builtins__'', Builtins),
      (''scrape_table_from_url'', Helper ''scrape_table_from_url''),
      (''run_duckdb_query'', Helper ''run_duckdb_query''),
      (''plot_and_encode_base64'', Helper ''plot_and_encode_base64''),
      (''pd'', Library ''pandas''),
      (''np'', Library ''numpy''),
      (''plt'', Library ''matplotlib.pyplot'')]"

definition local_vars :: "(string \<times> pyval) list" where
  "local_vars = []"

text \<open>
  The run of \<open>runner\<close> on the worker thread: it ends after some time, with the final
  local variables or with an exception and its traceback, or it never ends. Time is
  counted in seconds from the call. What a code string does is a parameter \<open>sem\<close>: the
  code, the globals and the locals it starts from. \<open>Raised\<close> stands for the exceptions
  of class \<open>Exception\<close>, which \<open>safe_exec\<close> catches; a run that raises \<open>SystemExit\<close> or
  \<open>KeyboardInterrupt\<close>, which \<open>except Exception\<close> lets through, is not among the
  outcomes.
\<close>

datatype outcome = Finished "(string \<times> pyval) list" | Raised string

datatype run = Ends nat outcome | Never_ends

type_synonym semantics = "string \<Rightarrow> (string \<times> binding) list \<Rightarrow> (string \<times> pyval) list \<Rightarrow> run"

text \<open>\<open>local_vars.get('result', None)\<close>.\<close>

definition get_result :: "(string \<times> pyval) list \<Rightarrow> pyval" where
  "get_result vars = (case map_of vars ''result'' of None \<Rightarrow> PyNone | Some v \<Rightarrow> v)"

definition timeout_trace :: string where
  "timeout_trace = ''Traceback (most recent call last): concurrent.futures._base.TimeoutError''"

text \<open>
  \<open>future.result(timeout=timeout)\<close>: the value or the exception of a run that has ended
  by then, a \<open>TimeoutError\<close> otherwise; every exception becomes \<open>(None, traceback)\<close>.
\<close>

definition future_result :: "nat \<Rightarrow> run \<Rightarrow> pyval \<times> string option" where
  "future_result timeout r =
     (case r of
        Ends d (Finished vars) \<Rightarrow>
          if d \<le> timeout then (get_result vars, None) else (PyNone, Some timeout_trace)
      | Ends d (Raised trace) \<Rightarrow>
          if d \<le> timeout then (PyNone, Some trace) else (PyNone, Some timeout_trace)
      | Never_ends \<Rightarrow> (PyNone, Some timeout_trace))"

text \<open>
  \<open>safe_exec\<close>. The \<open>return\<close> sits inside \<open>with ThreadPoolExecutor(...) as executor\<close>,
  and leaving that block calls \<open>executor.shutdown(wait=True)\<close>, which joins the worker
  thread: the call hands its pair back when the run has ended, at the time the run ends,
  and never when the run never ends (\<open>None\<close>).
\<close>

definition safe_exec :: "semantics \<Rightarrow> nat \<Rightarrow> string \<Rightarrow> (nat \<times> pyval \<times> string option) option" where
  "safe_exec sem timeout code =
     (let r = sem code allowed_globals local_vars;
          answer = future_result timeout r
      in case r of
           Ends d out \<Rightarrow> Some (d, answer)
         | Never_ends \<Rightarrow> None)"

section \<open>The endpoints\<close>

datatype response = JSONResponse nat "(string \<times> pyval) list"

fun status_code :: "response \<Rightarrow> nat" where
  "status_code (JSONResponse code body) = code"

fun str_exn :: "exn \<Rightarrow> string" where
  "str_exn (HTTPException code detail) = str_nat code @ '': '' @ detail"
| "str_exn EmbedderError = ''EmbedderError''"
| "str_exn StoreError = ''StoreError''"
| "str_exn LLMError = ''LLMError''"
| "str_exn IndexError = ''IndexError''"
| "str_exn TypeError = ''TypeError''"

text \<open>Whether the JSON encoder of the response accepts a value.\<close>

fun json_ok :: "pyval \<Rightarrow> bool" where
  "json_ok (PyObject name) = False"
| "json_ok (PyTuple xs) = list_all json_ok xs"
| "json_ok (PyList xs) = list_all json_ok xs"
| "json_ok (PyDict kvs) = list_all json_ok (map snd kvs)"
| "json_ok v = True"

text \<open>Python's truth test of the error component: \<open>if error:\<close>.\<close>

definition truthy :: "string option \<Rightarrow> bool" where
  "truthy e = (case e of None \<Rightarrow> False | Some t \<Rightarrow> t \<noteq> [])"

text \<open>
  \<open>analyze\<close>. The language model is a parameter (a prompt to code, or an exception), the
  clock and the hash of the task are inputs. The answer is \<open>None\<close> when \<open>safe_exec\<close>
  never returns. The id put into the response is computed from the clock and the task; it
  is not stored in the \<open>Interaction\<close>.
\<close>

definition make_interaction_id :: "string \<Rightarrow> nat \<Rightarrow> string" where
  "make_interaction_id now task_hash = ''interaction_'' @ now @ ''_'' @ str_nat (task_hash mod 10000)"

definition analyze ::
  "env \<Rightarrow> (string \<Rightarrow> exn + string) \<Rightarrow> semantics \<Rightarrow> nat \<Rightarrow> string \<Rightarrow> nat \<Rightarrow>
   rag_state \<Rightarrow> string \<Rightarrow> (rag_state \<times> response) option" where
  "analyze E llm sem timeout now task_hash st task =
     (let iid = make_interaction_id now task_hash in
      case llm (get_adaptive_prompt E st task) of
        Inl e \<Rightarrow>
          Some (st, JSONResponse 500
                      [(''error'', PyStr (''Analysis failed: '' @ str_exn e)),
                       (''interaction_id'', PyStr iid)])
      | Inr code \<Rightarrow>
          (case safe_exec sem timeout code of
             None \<Rightarrow> None
           | Some (t, result, error) \<Rightarrow>
               if truthy error then
                 (let i = \<lparr>timestamp = now, user_query = task, generated_code = code,
                           execution_result = PyNone, user_feedback = None,
                           success_score = Some 0.0,
                           context_used = retrieve_relevant_context E st task 3,
                           extra_attrs = []\<rparr>;
                      st1 = add_interaction E st i
                  in Some (st1, JSONResponse 500
                                  [(''error'', PyStr ''Code execution failed''),
                                   (''details'', (case error of None \<Rightarrow> PyNone | Some t \<Rightarrow> PyStr t)),
                                   (''code'', PyStr code),
                                   (''interaction_id'', PyStr iid)]))
               else
                 (let score = calculate_success_score result None;
                      i = \<lparr>timestamp = now, user_query = task, generated_code = code,
                           execution_result = result, user_feedback = None,
                           success_score = Some score,
                           context_used = retrieve_relevant_context E st task 3,
                           extra_attrs = []\<rparr>;
                      st1 = add_interaction E st i
                  in if json_ok result then
                       Some (st1, JSONResponse 200
                                    [(''result'', result),
                                     (''interaction_id'', PyStr iid),
                                     (''code_generated'', PyStr code),
                                     (''context_used'', PyList (map PyStr (context_used i))),
                                     (''success_score'', PyFloat score)])
                     else
                       Some (st1, JSONResponse 500
                                    [(''error'', PyStr (''Analysis failed: '' @ str_exn TypeError)),
                                     (''interaction_id'', PyStr iid)]))))"

text \<open>The body of a feedback request.\<close>

record feedback_request =
  interaction_id :: string
  feedback :: string
  fr_success_score :: "rat option"

text \<open>
  The loop of \<open>submit_feedback\<close> over the history (\<open>seen\<close> are the interactions already
  passed). A match updates the interaction in place, learns from it when it is
  successful, and returns; the end of the loop raises the 404.
\<close>

fun feedback_loop ::
  "env \<Rightarrow> rag_state \<Rightarrow> feedback_request \<Rightarrow> interaction list \<Rightarrow> interaction list \<Rightarrow>
   exn + rag_state \<times> response" where
  "feedback_loop E st req seen [] = Inl (HTTPException 404 ''Interaction not found'')"
| "feedback_loop E st req seen (i # rest) =
     (if hasattr i ''interaction_id''
         \<and> map_of (extra_attrs i) ''interaction_id'' = Some (interaction_id req)
      then
        (let i1 = i\<lparr>user_feedback := Some (feedback req)\<rparr>;
             i2 = (case fr_success_score req of
                     None \<Rightarrow> i1
                   | Some s \<Rightarrow> i1\<lparr>success_score := Some s\<rparr>);
             st1 = st\<lparr>interaction_history := seen @ i2 # rest\<rparr>;
             st2 = (if is_successful i2 then learn_from_successful_interaction E st1 i2 else st1)
         in Inr (st2, JSONResponse 200 [(''message'', PyStr ''Feedback submitted successfully'')]))
      else feedback_loop E st req (seen @ [i]) rest)"

text \<open>\<open>submit_feedback\<close>: the loop inside \<open>try\<close>, and \<open>except Exception\<close> around it, which
  answers 500 for whatever was raised.\<close>

definition submit_feedback :: "env \<Rightarrow> rag_state \<Rightarrow> feedback_request \<Rightarrow> rag_state \<times> response" where
  "submit_feedback E st req =
     (case feedback_loop E st req [] (interaction_history st) of
        Inl e \<Rightarrow>
          (st, JSONResponse 500 [(''error'', PyStr (''Failed to submit feedback: '' @ str_exn e))])
      | Inr answer \<Rightarrow> answer)"

section \<open>A reference embedder and store\<close>

text \<open>
  A small embedder and store on which the functions above can be run. The embedder never
  fails. \<open>add\<close> validates the metadata of a record as ChromaDB does, raising on an
  empty dict and on a value \<open>None\<close>; it appends a valid record, and on an id that is
  already stored it raises (\<open>strict_add\<close>) or ignores the record (\<open>lenient_add\<close>), as
  ChromaDB releases do. \<open>query\<close> ranks the stored records by squared distance, earlier
  insertions first among equals.
\<close>

fun no_none_value :: "metadata \<Rightarrow> bool" where
  "no_none_value [] = True"
| "no_none_value (kv # m) = (snd kv \<noteq> MNone \<and> no_none_value m)"

definition valid_metadata :: "metadata \<Rightarrow> bool" where
  "valid_metadata m = (m \<noteq> [] \<and> no_none_value m)"

definition ref_encode :: "string \<Rightarrow> exn + embedding" where
  "ref_encode text = Inr [int (length text)]"

definition strict_add :: "'d entry list \<Rightarrow> 'd entry \<Rightarrow> exn + 'd entry list" where
  "strict_add coll e =
     (if \<not> valid_metadata (e_metadata e) then Inl StoreError
      else if e_id e \<in> set (get_ids coll) then Inl StoreError
      else Inr (coll @ [e]))"

definition lenient_add :: "'d entry list \<Rightarrow> 'd entry \<Rightarrow> exn + 'd entry list" where
  "lenient_add coll e =
     (if \<not> valid_metadata (e_metadata e) then Inl StoreError
      else if e_id e \<in> set (get_ids coll) then Inr coll
      else Inr (coll @ [e]))"

definition distance :: "embedding \<Rightarrow> embedding \<Rightarrow> int" where
  "distance v w = sum_list (map (\<lambda>p. (fst p - snd p) * (fst p - snd p)) (zip v w))"

definition ref_query :: "'d entry list \<Rightarrow> embedding \<Rightarrow> int \<Rightarrow> exn + 'd list list" where
  "ref_query coll v n =
     (if n \<le> 0 then Inl StoreError
      else Inr [take (nat n) (map e_document (sort_key (\<lambda>e. distance v (e_embedding e)) coll))])"

definition strict_env :: env where
  "strict_env =
     \<lparr>encode = ref_encode, ctx_add = strict_add, ctx_query = ref_query,
      int_add = strict_add, int_query = ref_query\<rparr>"

definition lenient_env :: env where
  "lenient_env =
     \<lparr>encode = ref_encode, ctx_add = lenient_add, ctx_query = ref_query,
      int_add = lenient_add, int_query = ref_query\<rparr>"

definition empty_state :: rag_state where
  "empty_state = \<lparr>context_collection = [], interaction_collection = [], interaction_history = []\<rparr>"

text \<open>A store accepts a record when its \<open>add\<close> returns the collection with the record
  appended. What is asked of a store is that it accepts every record with valid metadata
  and an id it does not hold yet, in the context collection (\<open>accepts_fresh\<close>) and in
  the interaction collection (\<open>int_accepts_fresh\<close>).\<close>

definition accepts :: "env \<Rightarrow> string entry list \<Rightarrow> string entry \<Rightarrow> bool" where
  "accepts E coll e = (ctx_add E coll e = Inr (coll @ [e]))"

definition accepts_fresh :: "env \<Rightarrow> bool" where
  "accepts_fresh E =
     (\<forall>coll e. e_id e \<notin> set (get_ids coll) \<and> valid_metadata (e_metadata e)
        \<longrightarrow> accepts E coll e)"


definition encodes :: "env \<Rightarrow> string \<Rightarrow> bool" where
  "encodes E text = (case encode E text of Inl e \<Rightarrow> False | Inr v \<Rightarrow> True)"

text \<open>The embedding of a text the embedder encodes.\<close>

definition embedding_of :: "env \<Rightarrow> string \<Rightarrow> embedding" where
  "embedding_of E text = (case encode E text of Inl e \<Rightarrow> [] | Inr v \<Rightarrow> v)"

text \<open>The record \<open>add_contexts\<close> builds for a context under a given id.\<close>

definition stored_as :: "env \<Rightarrow> string \<Rightarrow> context_dict \<Rightarrow> string entry" where
  "stored_as E ident c =
     \<lparr>e_id = ident,
      e_embedding = embedding_of E (content c),
      e_document = content c,
      e_metadata = (case metadata c of None \<Rightarrow> [] | Some m \<Rightarrow> m)\<rparr>"

text \<open>The five default entries as the bootstrap stores them in an empty collection.\<close>

definition seed_ids :: "string list" where
  "seed_ids = [''context_0'', ''context_2'', ''context_4'', ''context_6'', ''context_8'']"

definition seeded_collection :: "env \<Rightarrow> string entry list" where
  "seeded_collection E = map (\<lambda>p. stored_as E (fst p) (snd p)) (zip seed_ids default_contexts)"


section \<open>The specification's wording\<close>

text \<open>The six names the specification lets generated code use.\<close>

definition whitelisted_names :: "string list" where
  "whitelisted_names =
     [''scrape_table_from_url'', ''run_duckdb_query'', ''plot_and_encode_base64'',
      ''pd'', ''np'', ''plt'']"

text \<open>The two lines the prompt gives to one listed interaction.\<close>

definition pattern_lines :: "interaction \<Rightarrow> string list" where
  "pattern_lines i =
     [''- Query: '' @ user_query i,
      ''- Successful code: '' @ take 200 (generated_code i) @ ''...'']"


section \<open>Example inputs\<close>

text \<open>The task and the generated code of the specification's end-to-end scenario, a stub
  for the language model and one for the run of the code, and what \<open>analyze\<close> does with
  them on a freshly seeded system.\<close>

definition sum_task :: string where
  "sum_task = ''Calculate the sum of numbers from 1 to 10''"

definition sum_code :: string where
  "sum_code = ''result = sum(range(1, 11))''"

definition stub_llm :: "string \<Rightarrow> string \<Rightarrow> exn + string" where
  "stub_llm code prompt = Inr code"

definition stub_sem :: "nat \<Rightarrow> (string \<times> pyval) list \<Rightarrow> semantics" where
  "stub_sem d vars code globals locals = Ends d (Finished vars)"

definition sum_run :: "(rag_state \<times> response) option" where
  "sum_run =
     analyze strict_env (stub_llm sum_code) (stub_sem 1 [(''result'', PyInt 55)]) 120
       ''20250101_120000'' 4242 (initialize_knowledge_base strict_env empty_state) sum_task"

text \<open>The feedback request of \<open>test_rag_agent.py\<close>, for the id that run returned.\<close>

definition great_feedback :: feedback_request where
  "great_feedback =
     \<lparr>interaction_id = ''interaction_20250101_120000_4242'',
      feedback = ''This was a great analysis! Very helpful.'',
      fr_success_score = Some 0.9\<rparr>"


definition low_score_interaction :: interaction where
  "low_score_interaction =
     \<lparr>timestamp = ''2025-01-01T12:00:00'', user_query = sum_task,
      generated_code = ''total = sum(range(1, 11))'',
      execution_result = PyNone, user_feedback = Some ''ok'', success_score = Some 0.5,
      context_used = [], extra_attrs = []\<rparr>"


text \<open>The contexts that \<open>test_rag_agent.py\<close> and \<open>example_usage.py\<close> post to the
  add-context endpoint.\<close>

definition scipy_context :: context_dict where
  "scipy_context =
     \<lparr>content = ''Advanced statistical analysis using scipy.stats for hypothesis testing and correlation analysis'',
      metadata = Some [(''type'', MStr ''data_analysis''), (''category'', MStr ''statistics''),
                       (''difficulty'', MStr ''advanced'')]\<rparr>"

definition timeseries_context :: context_dict where
  "timeseries_context =
     \<lparr>content = ''Advanced time series analysis using pandas with seasonal decomposition and trend analysis'',
      metadata = Some [(''type'', MStr ''data_analysis''), (''category'', MStr ''time_series''),
                       (''difficulty'', MStr ''advanced''), (''domain'', MStr ''forecasting'')]\<rparr>"


section \<open>Properties of the scorer\<close>

lemma structure_bonus_iff: "(is_dict_or_list r \<and> py_len r > 0) = nonempty_structure r"
  by (cases r) simp_all

lemma clamp01_max_min: "max 0 (min 1 x) = clamp01 x"
  by (simp add: clamp01_def max_def min_def)

lemma score_eq_reference: "calculate_success_score r fb = reference_score r fb"
proof (cases fb)
  case None
  then show ?thesis
    by (simp add: calculate_success_score_def reference_score_def structure_bonus_iff
        clamp01_max_min result_present_def feedback_adjustment_def Let_def)
next
  case (Some t)
  show ?thesis
  proof (cases "t = []")
    case True
    with Some show ?thesis
      by (simp add: calculate_success_score_def reference_score_def structure_bonus_iff
        clamp01_max_min result_present_def feedback_adjustment_def Let_def mentions_def
        lower_def positive_words_def negative_words_def)
  next
    case False
    with Some show ?thesis
      by (simp add: calculate_success_score_def reference_score_def structure_bonus_iff
        clamp01_max_min result_present_def feedback_adjustment_def Let_def mentions_def)
  qed
qed

lemma score_range: "0 \<le> calculate_success_score r fb \<and> calculate_success_score r fb \<le> 1"
  by (simp add: calculate_success_score_def Let_def)

lemma score_examples:
  "calculate_success_score PyNone None = 0.5"
  "calculate_success_score (PyInt 42) None = 0.8"
  "calculate_success_score (PyList [PyInt 1, PyInt 2, PyInt 3]) None = 1.0"
  "calculate_success_score (PyDict []) None = 0.8"
  "calculate_success_score (PyInt 42) (Some ''This was great!'') = 1.0"
  "calculate_success_score (PyInt 42) (Some ''this failed badly'') = 0.5"
  by code_simp+

lemma score_no_feedback: "calculate_success_score r None \<in> {0.5, 0.8, 1.0}"
  by (simp add: calculate_success_score_def structure_bonus_iff Let_def)

lemma score_below_base:
  assumes "calculate_success_score r fb < 0.5"
  shows "\<exists>t. fb = Some t \<and> mentions negative_words t \<and> \<not> mentions positive_words t"
proof (cases fb)
  case None
  with assms show ?thesis
    by (simp add: calculate_success_score_def structure_bonus_iff Let_def split: if_splits)
next
  case (Some t)
  with assms show ?thesis
    by (simp add: calculate_success_score_def structure_bonus_iff Let_def mentions_def
        split: if_splits)
qed

lemma b64_literals:
  "b64 0 = 0"
  "b64 (1 / 5) = 3602879701896397 / 18014398509481984"
  "b64 (3 / 10) = 5404319552844595 / 18014398509481984"
  "b64 (1 / 2) = 1 / 2"
  "b64 (7 / 10) = 3152519739159347 / 4503599627370496"
  "b64 (4 / 5) = 3602879701896397 / 4503599627370496"
  "b64 1 = 1"
  "b64 (11 / 10) = 2476979795053773 / 2251799813685248"
  "b64 (13 / 10) = 5854679515581645 / 4503599627370496"
  by code_simp+

text \<open>The sums and differences of doubles that the scorer forms, before rounding.\<close>

lemma b64_sums:
  "b64 (14411518807585587 / 18014398509481984) = 3602879701896397 / 4503599627370496"
  "b64 (18014398509481985 / 18014398509481984) = 1"
  "b64 (19815838360430183 / 18014398509481984) = 2476979795053773 / 2251799813685248"
  "b64 (23418718062326579 / 18014398509481984) = 5854679515581645 / 4503599627370496"
  "b64 (3602879701896397 / 18014398509481984) = 3602879701896397 / 18014398509481984"
  "b64 (9007199254740993 / 18014398509481984) = 1 / 2"
  "b64 (12610078956637389 / 18014398509481984) = 3152519739159347 / 4503599627370496"
  by code_simp+

text \<open>On every path a result can take (a non-empty dict or list is present), rounding at
  each step gives the double nearest to the exact score.\<close>

lemma path_score_rounds:
  assumes "s \<longrightarrow> p"
  shows "path_score b64 p s a = b64 (path_score (\<lambda>x. x) p s a)"
  using assms
  by (cases p; cases s; cases a)
     (simp_all add: path_score_def Let_def b64_literals b64_sums)

lemma score_path:
  "calculate_success_score r fb =
     path_score (\<lambda>x. x) (r \<noteq> PyNone) (nonempty_structure r) (sentiment_of fb)"
  by (simp add: calculate_success_score_def path_score_def sentiment_of_def Let_def
      structure_bonus_iff split: option.splits)

lemma score_b64_path:
  "calculate_success_score_b64 r fb =
     path_score b64 (r \<noteq> PyNone) (nonempty_structure r) (sentiment_of fb)"
  by (simp add: calculate_success_score_b64_def path_score_def sentiment_of_def Let_def
      structure_bonus_iff split: option.splits)

lemma structure_is_present: "nonempty_structure r \<longrightarrow> r \<noteq> PyNone"
  by (cases r) simp_all

lemma score_b64_rounds:
  "calculate_success_score_b64 r fb = b64 (calculate_success_score r fb)"
  by (simp only: score_path score_b64_path path_score_rounds [OF structure_is_present])

text \<open>
  C1. \<open>calculate_success_score\<close> depends on its two arguments only and equals the
  reference heuristic: base 0.5, plus 0.3 for a result that is not \<open>None\<close>, plus 0.2 for a
  non-empty dict or list, then for supplied feedback plus 0.3 on a positive keyword and
  otherwise minus 0.3 on a negative one (lower-cased substring match), clamped to
  \<open>[0, 1]\<close>. Its value is always in \<open>[0, 1]\<close>, and the six values the specification
  lists come out as listed. In binary64 arithmetic the function returns the double
  nearest to that value, which is the double the decimal literal of a comparison denotes.
\<close>

theorem calculate_success_score_reference:
  "calculate_success_score r fb = reference_score r fb
   \<and> 0 \<le> calculate_success_score r fb \<and> calculate_success_score r fb \<le> 1
   \<and> calculate_success_score PyNone None = 0.5
   \<and> calculate_success_score (PyInt 42) None = 0.8
   \<and> calculate_success_score (PyList [PyInt 1, PyInt 2, PyInt 3]) None = 1.0
   \<and> calculate_success_score (PyDict []) None = 0.8
   \<and> calculate_success_score (PyInt 42) (Some ''This was great!'') = 1.0
   \<and> calculate_success_score (PyInt 42) (Some ''this failed badly'') = 0.5
   \<and> calculate_success_score_b64 r fb = b64 (calculate_success_score r fb)"
  using score_eq_reference [of r fb] score_range [of r fb] score_examples
    score_b64_rounds [of r fb]
  by blast

text \<open>
  C10. Without feedback the scorer returns 0.5, 0.8 or 1.0, so never less than the base
  0.5; and whenever the scorer does return less than 0.5, feedback was supplied that
  mentions a negative keyword and no positive one.
\<close>

theorem score_without_feedback:
  "calculate_success_score r None \<in> {0.5, 0.8, 1.0}
   \<and> 0.5 \<le> calculate_success_score r None
   \<and> (calculate_success_score r fb < 0.5 \<longrightarrow>
        (\<exists>t. fb = Some t \<and> mentions negative_words t \<and> \<not> mentions positive_words t))"
proof -
  have a: "calculate_success_score r None \<in> {0.5, 0.8, 1.0}" by (rule score_no_feedback)
  then have b: "0.5 \<le> calculate_success_score r None" by auto
  from a b score_below_base show ?thesis by blast
qed

theorem score_without_feedback_witness:
  "calculate_success_score PyNone None \<in> {0.5, 0.8, 1.0}
   \<and> calculate_success_score PyNone (Some ''bad'') < 0.5
   \<and> mentions negative_words ''bad'' \<and> \<not> mentions positive_words ''bad''"
proof -
  have h: "calculate_success_score PyNone (Some ''bad'') < 0.5" by code_simp
  from score_without_feedback [of PyNone "Some ''bad''"] h show ?thesis by auto
qed

section \<open>Properties of the executor\<close>

text \<open>
  C2, as the specification states it, fails: the namespace handed to \<open>exec\<close> binds a
  seventh name, \<open>__builtins__\<close>, which is not one of the six whitelisted names and is
  bound to the interpreter's full builtins module.
\<close>

theorem allowed_globals_beyond_whitelist:
  "''__builtins__'' \<in> set (map fst allowed_globals)
   \<and> ''__builtins__'' \<notin> set whitelisted_names
   \<and> map_of allowed_globals ''__builtins__'' = Some Builtins"
  by (simp add: allowed_globals_def whitelisted_names_def)

text \<open>
  C2, amended. \<open>safe_exec\<close> runs every code string with a globals namespace of its own
  that binds exactly seven names: \<open>__builtins__\<close>, bound to the unrestricted builtins
  module, and the six whitelisted names, bound to the three helpers and the three
  libraries; the locals start empty, and what the call returns is determined by the run of
  the code from these two namespaces.
\<close>

theorem safe_exec_namespace:
  "map fst allowed_globals = ''__builtins__'' # whitelisted_names
   \<and> map_of allowed_globals ''__builtins__'' = Some Builtins
   \<and> map snd (tl allowed_globals) =
       [Helper ''scrape_table_from_url'', Helper ''run_duckdb_query'',
        Helper ''plot_and_encode_base64'', Library ''pandas'', Library ''numpy'',
        Library ''matplotlib.pyplot'']
   \<and> local_vars = []
   \<and> safe_exec sem timeout code =
       (case sem code allowed_globals [] of
          Ends d out \<Rightarrow> Some (d, future_result timeout (Ends d out))
        | Never_ends \<Rightarrow> None)"
  by (simp add: allowed_globals_def whitelisted_names_def local_vars_def safe_exec_def Let_def
      split: run.splits)

text \<open>
  C3 says that a run which outlasts the timeout makes \<open>safe_exec\<close> return a timeout
  failure once the timeout elapses, and that the process stays answerable. In the code
  the call waits for the worker when it leaves the \<open>with\<close> block: for code that never
  ends, \<open>safe_exec\<close> never returns and neither does \<open>analyze\<close>; for code that ends
  \<open>k + 1\<close> seconds after the timeout, the timeout failure is handed back only then.
\<close>

theorem safe_exec_waits_for_worker:
  "safe_exec (\<lambda>c g l. Never_ends) timeout code = None
   \<and> safe_exec (\<lambda>c g l. Ends (timeout + k + 1) out) timeout code
       = Some (timeout + k + 1, PyNone, Some timeout_trace)
   \<and> analyze E (\<lambda>p. Inr code) (\<lambda>c g l. Never_ends) timeout now h st task = None"
  by (cases out) (simp_all add: safe_exec_def future_result_def analyze_def Let_def)

section \<open>Properties of the store and the bootstrap\<close>

lemma str_nat_small: "n < 10 \<Longrightarrow> str_nat n = [digit_char n]"
  by (simp add: str_nat.simps)

lemma str_nat_404: "str_nat 404 = ''404''"
  by code_simp

lemma encodes_D: "encodes E t \<Longrightarrow> encode E t = Inr (embedding_of E t)"
  by (auto simp: encodes_def embedding_of_def split: sum.splits)

lemma accepts_fresh_strict: "accepts_fresh strict_env"
  by (simp add: accepts_fresh_def accepts_def strict_env_def strict_add_def)


lemma seeds_valid:
  "c \<in> set default_contexts \<Longrightarrow>
   valid_metadata (case metadata c of None \<Rightarrow> [] | Some m \<Rightarrow> m)"
  by (auto simp: default_contexts_def valid_metadata_def)

lemma encodes_strict: "encodes strict_env t"
  by (simp add: encodes_def strict_env_def ref_encode_def)

lemma loop_step:
  assumes "encodes E (content c)" and "accepts_fresh E"
    and "valid_metadata (case metadata c of None \<Rightarrow> [] | Some m \<Rightarrow> m)"
    and "context_id coll i \<notin> set (get_ids coll)"
  shows "add_contexts_loop E coll i (c # cs) =
         add_contexts_loop E (coll @ [stored_as E (context_id coll i) c]) (Suc i) cs"
proof -
  have "accepts E coll (stored_as E (context_id coll i) c)"
    using assms(2,3,4) by (simp add: accepts_fresh_def stored_as_def)
  then show ?thesis
    using encodes_D [OF assms(1)] by (simp add: accepts_def stored_as_def)
qed

lemma seed_loop:
  assumes enc: "list_all (encodes E) (map content default_contexts)" and fresh: "accepts_fresh E"
  shows "add_contexts_loop E [] 0 default_contexts = seeded_collection E"
proof -
  obtain c0 c1 c2 c3 c4 where dc: "default_contexts = [c0, c1, c2, c3, c4]"
    by (simp add: default_contexts_def)
  from enc have e: "encodes E (content c0)" "encodes E (content c1)" "encodes E (content c2)"
    "encodes E (content c3)" "encodes E (content c4)"
    by (simp_all add: dc)
  have v: "valid_metadata (case metadata c0 of None \<Rightarrow> [] | Some m \<Rightarrow> m)"
    "valid_metadata (case metadata c1 of None \<Rightarrow> [] | Some m \<Rightarrow> m)"
    "valid_metadata (case metadata c2 of None \<Rightarrow> [] | Some m \<Rightarrow> m)"
    "valid_metadata (case metadata c3 of None \<Rightarrow> [] | Some m \<Rightarrow> m)"
    "valid_metadata (case metadata c4 of None \<Rightarrow> [] | Some m \<Rightarrow> m)"
    using seeds_valid by (simp_all add: dc)
  have s0: "add_contexts_loop E [] 0 [c0, c1, c2, c3, c4] =
            add_contexts_loop E [stored_as E ''context_0'' c0] 1 [c1, c2, c3, c4]"
    using loop_step [OF e(1) fresh v(1), of "[]" 0]
    by (simp add: context_id_def get_ids_def str_nat_small digit_char_def)
  have s1: "add_contexts_loop E [stored_as E ''context_0'' c0] 1 [c1, c2, c3, c4] =
            add_contexts_loop E [stored_as E ''context_0'' c0, stored_as E ''context_2'' c1] 2
              [c2, c3, c4]"
    using loop_step [OF e(2) fresh v(2), of "[stored_as E ''context_0'' c0]" 1]
    by (simp add: context_id_def get_ids_def str_nat_small digit_char_def stored_as_def
        numeral_2_eq_2)
  have s2: "add_contexts_loop E [stored_as E ''context_0'' c0, stored_as E ''context_2'' c1] 2
              [c2, c3, c4] =
            add_contexts_loop E [stored_as E ''context_0'' c0, stored_as E ''context_2'' c1,
               stored_as E ''context_4'' c2] 3 [c3, c4]"
    using loop_step [OF e(3) fresh v(3),
        of "[stored_as E ''context_0'' c0, stored_as E ''context_2'' c1]" 2]
    by (simp add: context_id_def get_ids_def str_nat_small digit_char_def stored_as_def)
  have s3: "add_contexts_loop E [stored_as E ''context_0'' c0, stored_as E ''context_2'' c1,
               stored_as E ''context_4'' c2] 3 [c3, c4] =
            add_contexts_loop E [stored_as E ''context_0'' c0, stored_as E ''context_2'' c1,
               stored_as E ''context_4'' c2, stored_as E ''context_6'' c3] 4 [c4]"
    using loop_step [OF e(4) fresh v(4),
        of "[stored_as E ''context_0'' c0, stored_as E ''context_2'' c1,
               stored_as E ''context_4'' c2]" 3]
    by (simp add: context_id_def get_ids_def str_nat_small digit_char_def stored_as_def)
  have s4: "add_contexts_loop E [stored_as E ''context_0'' c0, stored_as E ''context_2'' c1,
               stored_as E ''context_4'' c2, stored_as E ''context_6'' c3] 4 [c4] =
            [stored_as E ''context_0'' c0, stored_as E ''context_2'' c1,
               stored_as E ''context_4'' c2, stored_as E ''context_6'' c3,
               stored_as E ''context_8'' c4]"
    using loop_step [OF e(5) fresh v(5),
        of "[stored_as E ''context_0'' c0, stored_as E ''context_2'' c1,
               stored_as E ''context_4'' c2, stored_as E ''context_6'' c3]" 4]
    by (simp add: context_id_def get_ids_def str_nat_small digit_char_def stored_as_def)
  show ?thesis
    unfolding seeded_collection_def seed_ids_def dc
    using s0 s1 s2 s3 s4 by simp
qed

lemma seeded_length: "length (seeded_collection E) = 5"
  by (simp add: seeded_collection_def seed_ids_def default_contexts_def)

text \<open>
  C9. With an embedder that encodes the five default texts and a store that accepts
  records under fresh ids, the bootstrap run on a collection whose \<open>count()\<close> is 0 stores
  exactly the five default entries, and run on a collection whose \<open>count()\<close> is positive
  it changes nothing; so a second bootstrap after the first changes nothing.
\<close>

theorem bootstrap_seeds_once:
  assumes enc: "list_all (encodes E) (map content default_contexts)" and fresh: "accepts_fresh E"
  shows "(count (context_collection st) = 0 \<longrightarrow>
            context_collection (initialize_knowledge_base E st) = seeded_collection E)
         \<and> map e_document (seeded_collection E) = map content default_contexts
         \<and> count (seeded_collection E) = 5
         \<and> (count (context_collection st) > 0 \<longrightarrow> initialize_knowledge_base E st = st)
         \<and> initialize_knowledge_base E (initialize_knowledge_base E st)
             = initialize_knowledge_base E st"
proof -
  have a: "count (context_collection st) = 0 \<Longrightarrow>
            context_collection (initialize_knowledge_base E st) = seeded_collection E"
    using seed_loop [OF enc fresh]
    by (simp add: initialize_knowledge_base_def add_contexts_def count_def)
  have b: "map e_document (seeded_collection E) = map content default_contexts"
    by (simp add: seeded_collection_def seed_ids_def default_contexts_def stored_as_def)
  have c: "count (seeded_collection E) = 5"
    by (simp add: count_def seeded_length)
  have d: "count (context_collection st) > 0 \<Longrightarrow> initialize_knowledge_base E st = st"
    by (simp add: initialize_knowledge_base_def)
  have e: "initialize_knowledge_base E (initialize_knowledge_base E st)
             = initialize_knowledge_base E st"
  proof (cases "count (context_collection st) = 0")
    case True
    then have "count (context_collection (initialize_knowledge_base E st)) > 0"
      using a c by simp
    then show ?thesis by (simp add: initialize_knowledge_base_def)
  next
    case False
    then show ?thesis by (simp add: initialize_knowledge_base_def)
  qed
  from a b c d e show ?thesis by blast
qed

theorem bootstrap_seeds_once_witness:
  "context_collection (initialize_knowledge_base strict_env empty_state)
     = seeded_collection strict_env
   \<and> count (seeded_collection strict_env) = 5
   \<and> initialize_knowledge_base strict_env (initialize_knowledge_base strict_env empty_state)
       = initialize_knowledge_base strict_env empty_state"
proof -
  have h1: "list_all (encodes strict_env) (map content default_contexts)"
    by (simp add: list_all_iff encodes_strict)
  have h2: "count (context_collection empty_state) = 0"
    by (simp add: count_def empty_state_def)
  from bootstrap_seeds_once [OF h1 accepts_fresh_strict, of empty_state] h2
  show ?thesis by simp
qed

text \<open>
  C6 says that no two entries are ever assigned the same id. The id is the number of
  stored ids, read again at each iteration, plus the loop index, so the bootstrap stores
  its five entries under \<open>context_0, 2, 4, 6, 8\<close>. The next single insertion gets
  \<open>context_5\<close>, and the one after it is assigned \<open>context_6\<close>, the id of the fourth
  default entry: a store that raises on a stored id and a store that ignores the record
  both drop that context.
\<close>

theorem context_id_collision:
  "get_ids (context_collection (initialize_knowledge_base strict_env empty_state)) = seed_ids
   \<and> get_ids (context_collection
        (add_contexts strict_env (initialize_knowledge_base strict_env empty_state)
           [scipy_context])) = seed_ids @ [''context_5'']
   \<and> context_id (context_collection
        (add_contexts strict_env (initialize_knowledge_base strict_env empty_state)
           [scipy_context])) 0 = ''context_6''
   \<and> add_contexts strict_env
        (add_contexts strict_env (initialize_knowledge_base strict_env empty_state)
           [scipy_context]) [timeseries_context]
       = add_contexts strict_env (initialize_knowledge_base strict_env empty_state)
           [scipy_context]
   \<and> add_contexts lenient_env
        (add_contexts lenient_env (initialize_knowledge_base lenient_env empty_state)
           [scipy_context]) [timeseries_context]
       = add_contexts lenient_env (initialize_knowledge_base lenient_env empty_state)
           [scipy_context]"
  by code_simp

section \<open>Properties of the learning loop\<close>



text \<open>An interaction without feedback text carries the metadata value \<open>None\<close>: the store
  refuses it, and \<open>add_interaction\<close> ends there, the state unchanged.\<close>

lemma add_interaction_without_feedback:
  "user_feedback i = None \<Longrightarrow> add_interaction strict_env st i = st"
  by (simp add: add_interaction_def strict_env_def ref_encode_def strict_add_def
      interaction_entry_def valid_metadata_def)




section \<open>Properties of retrieval and of the prompt\<close>







lemma append_context_lines_eq:
  "append_context_lines parts cs = parts @ map (\<lambda>c. ''- '' @ c) cs"
  by (induction cs arbitrary: parts) simp_all

lemma append_pattern_lines_eq:
  "append_pattern_lines parts sims =
     parts @ concat (map pattern_lines (filter is_successful sims))"
  by (induction sims arbitrary: parts) (simp_all add: pattern_lines_def)

lemma is_successful_threshold:
  "is_successful i = (case success_score i of None \<Rightarrow> False | Some s \<Rightarrow> s > 0.7)"
  by (auto simp: is_successful_def split: option.splits)

lemma similar_low_score:
  "get_similar_interactions strict_env
     (add_interaction strict_env empty_state low_score_interaction) sum_task 2
   = [low_score_interaction]"
  by code_simp

text \<open>
  C5, as the specification states it, fails: with one past interaction of score 0.5
  stored (its feedback text set, so that the store takes it) and retrieved, none exceeds
  0.7, and the prompt still contains the header of the successful-patterns section.
\<close>

theorem prompt_header_without_pattern:
  "str_in patterns_header
     (get_adaptive_prompt strict_env
        (add_interaction strict_env empty_state low_score_interaction) sum_task)
   \<and> get_similar_interactions strict_env
        (add_interaction strict_env empty_state low_score_interaction) sum_task 2
       = [low_score_interaction]
   \<and> \<not> is_successful low_score_interaction"
proof -
  have "str_in patterns_header
     (get_adaptive_prompt strict_env
        (add_interaction strict_env empty_state low_score_interaction) sum_task)"
    by code_simp
  moreover have "\<not> is_successful low_score_interaction" by code_simp
  ultimately show ?thesis using similar_low_score by simp
qed

text \<open>
  C5, amended. The prompt is the preamble, one bullet per retrieved context, then, if and
  only if at least one similar interaction was retrieved, the successful-patterns header
  followed by two lines for each retrieved interaction whose score exceeds 0.7, in
  retrieval order: its query, and the first 200 characters of its code followed by three
  dots; then the closing lines with the task. Retrieved interactions at or below 0.7
  add no line.
\<close>

theorem prompt_parts_layout:
  "prompt_parts ctx sims q =
     prompt_preamble @ map (\<lambda>c. ''- '' @ c) ctx
       @ (if sims = [] then []
          else patterns_header # concat (map pattern_lines (filter is_successful sims)))
       @ prompt_closing q
   \<and> get_adaptive_prompt E st q =
       join_lines (prompt_parts (retrieve_relevant_context E st q 3)
                     (get_similar_interactions E st q 2) q)
   \<and> is_successful i = (case success_score i of None \<Rightarrow> False | Some s \<Rightarrow> s > 0.7)"
  using is_successful_threshold [of i]
  by (simp add: prompt_parts_def get_adaptive_prompt_def Let_def append_context_lines_eq
      append_pattern_lines_eq)

section \<open>Properties of the feedback endpoint\<close>

lemma feedback_loop_no_match:
  "list_all (\<lambda>i. \<not> hasattr i ''interaction_id'') rest \<Longrightarrow>
   feedback_loop E st req seen rest = Inl (HTTPException 404 ''Interaction not found'')"
  by (induction rest arbitrary: seen) simp_all

lemma feedback_loop_answer:
  "feedback_loop E st req seen rest = Inr (st', r) \<Longrightarrow> status_code r = 200"
  by (induction rest arbitrary: seen) (auto simp: Let_def split: if_splits)

lemma add_contexts_history: "interaction_history (add_contexts E st cs) = interaction_history st"
  by (simp add: add_contexts_def)

lemma learn_history:
  "interaction_history (learn_from_successful_interaction E st i) = interaction_history st"
  by (simp add: learn_from_successful_interaction_def add_contexts_history)

lemma add_interaction_history:
  "interaction_history (add_interaction E st i) = interaction_history st
   \<or> interaction_history (add_interaction E st i) = interaction_history st @ [i]"
  by (simp add: add_interaction_def Let_def learn_history split: sum.splits)

lemma add_interaction_plain:
  assumes "list_all (\<lambda>i. \<not> hasattr i ''interaction_id'') (interaction_history st)"
    and "extra_attrs i = []"
  shows "list_all (\<lambda>i. \<not> hasattr i ''interaction_id'')
           (interaction_history (add_interaction E st i))"
proof -
  from add_interaction_history [of E st i] show ?thesis
  proof
    assume "interaction_history (add_interaction E st i) = interaction_history st"
    with assms(1) show ?thesis by simp
  next
    assume "interaction_history (add_interaction E st i) = interaction_history st @ [i]"
    with assms show ?thesis by (simp add: hasattr_def)
  qed
qed

text \<open>No interaction that \<open>analyze\<close> records carries an \<open>interaction_id\<close> attribute.\<close>

lemma analyze_history_plain:
  assumes "list_all (\<lambda>i. \<not> hasattr i ''interaction_id'') (interaction_history st)"
    and "analyze E llm sem timeout now h st task = Some (st', r)"
  shows "list_all (\<lambda>i. \<not> hasattr i ''interaction_id'') (interaction_history st')"
proof (cases "llm (get_adaptive_prompt E st task)")
  case (Inl e)
  with assms show ?thesis by (simp add: analyze_def Let_def)
next
  case (Inr code)
  show ?thesis
  proof (cases "safe_exec sem timeout code")
    case None
    with Inr assms(2) show ?thesis by (simp add: analyze_def Let_def)
  next
    case (Some a)
    obtain t result error where a: "a = (t, result, error)" by (cases a)
    from assms(2) Inr Some a
    have "st' = add_interaction E st
                  \<lparr>timestamp = now, user_query = task, generated_code = code,
                   execution_result = PyNone, user_feedback = None,
                   success_score = Some 0.0,
                   context_used = retrieve_relevant_context E st task 3,
                   extra_attrs = []\<rparr>
          \<or> st' = add_interaction E st
                  \<lparr>timestamp = now, user_query = task, generated_code = code,
                   execution_result = result, user_feedback = None,
                   success_score = Some (calculate_success_score result None),
                   context_used = retrieve_relevant_context E st task 3,
                   extra_attrs = []\<rparr>"
      by (auto simp: analyze_def Let_def split: if_splits)
    then show ?thesis using add_interaction_plain [OF assms(1)] by auto
  qed
qed

text \<open>
  C7 says that a feedback request for an unknown id gets a distinct not-found answer and
  a request for a known id succeeds. In the code the 404 is raised inside the \<open>try\<close>
  whose \<open>except Exception\<close> answers 500, so no request is ever answered 404; and the
  loop looks for an attribute \<open>interaction_id\<close> that \<open>Interaction\<close> does not have, so
  with a history of interactions as \<open>analyze\<close> records them every request, also one for
  the id \<open>analyze\<close> returned, is answered 500 and changes nothing.
\<close>

theorem submit_feedback_never_not_found:
  "status_code (snd (submit_feedback E st req)) \<noteq> 404
   \<and> (list_all (\<lambda>i. \<not> hasattr i ''interaction_id'') (interaction_history st) \<longrightarrow>
        submit_feedback E st req =
          (st, JSONResponse 500
                 [(''error'', PyStr ''Failed to submit feedback: 404: Interaction not found'')]))"
proof -
  have a: "status_code (snd (submit_feedback E st req)) \<noteq> 404"
  proof (cases "feedback_loop E st req [] (interaction_history st)")
    case (Inl e)
    then show ?thesis by (simp add: submit_feedback_def)
  next
    case (Inr answer)
    then show ?thesis
      using feedback_loop_answer
        [of E st req "[]" "interaction_history st" "fst answer" "snd answer"]
      by (simp add: submit_feedback_def)
  qed
  have b: "list_all (\<lambda>i. \<not> hasattr i ''interaction_id'') (interaction_history st) \<Longrightarrow>
        submit_feedback E st req =
          (st, JSONResponse 500
                 [(''error'', PyStr ''Failed to submit feedback: 404: Interaction not found'')])"
    by (simp add: submit_feedback_def feedback_loop_no_match str_nat_404)
  from a b show ?thesis by blast
qed

theorem submit_feedback_never_not_found_witness:
  "map_option (status_code \<circ> snd) sum_run = Some 200
   \<and> submit_feedback strict_env (fst (the sum_run)) great_feedback =
       (fst (the sum_run), JSONResponse 500
          [(''error'', PyStr ''Failed to submit feedback: 404: Interaction not found'')])"
proof -
  have s: "map_option (status_code \<circ> snd) sum_run = Some 200" by code_simp
  then obtain st' r where sr: "sum_run = Some (st', r)" by (cases sum_run) auto
  have "list_all (\<lambda>i. \<not> hasattr i ''interaction_id'')
          (interaction_history (initialize_knowledge_base strict_env empty_state))"
    by (simp add: initialize_knowledge_base_def add_contexts_history empty_state_def)
  from analyze_history_plain [OF this sr [unfolded sum_run_def]]
  have h: "list_all (\<lambda>i. \<not> hasattr i ''interaction_id'') (interaction_history st')" .
  have f: "fst (the sum_run) = st'" by (subst sr) simp
  from submit_feedback_never_not_found [of strict_env st' great_feedback] h
  have "submit_feedback strict_env st' great_feedback =
       (st', JSONResponse 500
          [(''error'', PyStr ''Failed to submit feedback: 404: Interaction not found'')])"
    by blast
  with s show ?thesis unfolding f by blast
qed

end
